theory Spec2Isabelle
  imports Complex_Main "HOL-Library.Product_Lexorder"
begin

section \<open>League pool (league.py)\<close>

text \<open>
  Python floats are modelled as \<open>real\<close> and Python ints as \<open>int\<close> throughout: the
  properties below are about control flow, ordering and algebra, not about rounding.
\<close>

record LeagueEntry =
  checkpoint_path :: string
  steps :: int
  elo :: real
  winrate_vs_smart :: real

record LeaguePool =
  keep_top_n :: int
  entries :: "LeagueEntry list"

text \<open>The sort key \<open>lambda item: (item.elo, item.winrate_vs_smart, item.steps)\<close>; tuples
  compare lexicographically.\<close>

definition entry_key :: "LeagueEntry \<Rightarrow> real \<times> real \<times> int" where
  "entry_key item = (elo item, winrate_vs_smart item, steps item)"

text \<open>\<open>list.sort(key=..., reverse=True)\<close>: CPython reverses the list, runs its stable
  ascending sort and reverses the result, so equal keys keep their original order.\<close>

definition sort_reverse :: "LeagueEntry list \<Rightarrow> LeagueEntry list" where
  "sort_reverse xs = rev (sort_key entry_key (rev xs))"

text \<open>The slice \<open>xs[:n]\<close> for a Python int \<open>n\<close>: a negative bound counts from the end.\<close>

definition slice_to :: "'a list \<Rightarrow> int \<Rightarrow> 'a list" where
  "slice_to xs n = (if 0 \<le> n then take (nat n) xs else take (nat (int (length xs) + n)) xs)"

definition add_checkpoint :: "LeaguePool \<Rightarrow> string \<Rightarrow> int \<Rightarrow> real \<Rightarrow> LeagueEntry \<times> LeaguePool" where
  "add_checkpoint pool path n winrate =
     (let entry = \<lparr>checkpoint_path = path, steps = n,
                    elo = 1000 + max 0 ((winrate - 0.5) * 400),
                    winrate_vs_smart = winrate\<rparr>;
          es = sort_reverse (entries pool @ [entry]);
          es' = (if int (length es) > keep_top_n pool * 3 then slice_to es (keep_top_n pool * 3) else es)
      in (entry, pool\<lparr>entries := es'\<rparr>))"

text \<open>\<open>min(top3_baseline)\<close> on a non-empty list; the source guards the empty list with
  \<open>top3_baseline and ...\<close>, so the empty case is a branch of its own below.\<close>

fun baseline_blocks :: "real list \<Rightarrow> real \<Rightarrow> bool" where
  "baseline_blocks [] w = False"
| "baseline_blocks (b # bs) w = (fold min bs b > w)"

definition promote_if_qualified :: "LeaguePool \<Rightarrow> LeagueEntry \<Rightarrow> real list \<Rightarrow> bool \<times> LeaguePool" where
  "promote_if_qualified pool candidate top3_baseline =
     (if winrate_vs_smart candidate < 0.55 then (False, pool)
      else if baseline_blocks top3_baseline (winrate_vs_smart candidate) then (False, pool)
      else
        (let es1 = (if candidate \<in> set (entries pool) then entries pool else entries pool @ [candidate]);
             es2 = sort_reverse es1;
             es3 = slice_to es2 (max (keep_top_n pool) (int (length es2)))
         in (True, pool\<lparr>entries := es3\<rparr>)))"

definition top :: "LeaguePool \<Rightarrow> int \<Rightarrow> LeagueEntry list" where
  "top pool n = slice_to (entries pool) n"

text \<open>The promotion rule in the specification's words: reject if the win-rate is below
  0.55, or if every entry among the supplied top three is strictly higher.\<close>

definition spec_rejects :: "real \<Rightarrow> real list \<Rightarrow> bool" where
  "spec_rejects w top3 = (w < 0.55 \<or> list_all (\<lambda>b. w < b) top3)"

text \<open>Concrete pools and candidates used to run the code below.\<close>

definition cand70 :: LeagueEntry where
  "cand70 = \<lparr>checkpoint_path = ''checkpoints/checkpoint_200000.pt'', steps = 200000,
              elo = 1080, winrate_vs_smart = 0.70\<rparr>"

definition pool3 :: LeaguePool where
  "pool3 = \<lparr>keep_top_n = 8, entries =
     [\<lparr>checkpoint_path = ''c'', steps = 3, elo = 1060, winrate_vs_smart = 0.65\<rparr>,
      \<lparr>checkpoint_path = ''b'', steps = 2, elo = 1048, winrate_vs_smart = 0.62\<rparr>,
      \<lparr>checkpoint_path = ''a'', steps = 1, elo = 1040, winrate_vs_smart = 0.60\<rparr>]\<rparr>"

text \<open>A pool of capacity 1 that already holds one evaluated checkpoint, and the same pool
  after a second one is deposited with \<open>add_checkpoint\<close>.\<close>

definition pool_one :: LeaguePool where
  "pool_one = snd (add_checkpoint \<lparr>keep_top_n = 1, entries = []\<rparr>
                     ''checkpoints/checkpoint_100.pt'' 100 0.6)"

definition pool_two :: "LeagueEntry \<times> LeaguePool" where
  "pool_two = add_checkpoint pool_one ''checkpoints/checkpoint_200.pt'' 200 0.7"


section \<open>Generalized advantage estimation (ppo.py, compute_gae)\<close>

text \<open>
  The arrays are indexed \<open>[time step][lane]\<close>: a matrix is a list of rows, one row per time
  step, one entry per lane. numpy's elementwise operations on rows are \<open>map2\<close>; they agree
  with numpy on rows of equal length, which is what \<open>shaped\<close> below asks of the inputs.
\<close>

type_synonym vec = "real list"
type_synonym mat = "real list list"

definition vadd :: "vec \<Rightarrow> vec \<Rightarrow> vec" where
  "vadd xs ys = map2 (+) xs ys"

definition vsub :: "vec \<Rightarrow> vec \<Rightarrow> vec" where
  "vsub xs ys = map2 (-) xs ys"

definition vmul :: "vec \<Rightarrow> vec \<Rightarrow> vec" where
  "vmul xs ys = map2 (*) xs ys"

definition smul :: "real \<Rightarrow> vec \<Rightarrow> vec" where
  "smul c xs = map ((*) c) xs"

text \<open>The body of \<open>for step in reversed(range(horizon))\<close>; the loop state is
  \<open>(advantages, last_gae)\<close>.\<close>

definition gae_step ::
  "real \<Rightarrow> real \<Rightarrow> mat \<Rightarrow> mat \<Rightarrow> mat \<Rightarrow> vec \<Rightarrow> nat \<Rightarrow> nat \<Rightarrow> mat \<times> vec \<Rightarrow> mat \<times> vec" where
  "gae_step gamma gae_lambda rewards values dones next_value horizon step s =
     (let advantages = fst s;
          last_gae = snd s;
          non_terminal = map (\<lambda>d. 1 - d) (dones ! step);
          value_next = (if step = horizon - 1 then next_value else values ! (step + 1));
          delta = vsub (vadd (rewards ! step) (vmul (smul gamma value_next) non_terminal))
                    (values ! step);
          last_gae' = vadd delta (vmul (smul (gamma * gae_lambda) non_terminal) last_gae)
      in (advantages[step := last_gae'], last_gae'))"

definition compute_gae ::
  "mat \<Rightarrow> mat \<Rightarrow> mat \<Rightarrow> vec \<Rightarrow> real \<Rightarrow> real \<Rightarrow> mat \<times> mat" where
  "compute_gae rewards values dones next_value gamma gae_lambda =
     (let horizon = length rewards;
          num_envs = (case rewards of [] \<Rightarrow> 0 | r # _ \<Rightarrow> length r);
          advantages0 = replicate horizon (replicate num_envs 0);
          last_gae0 = replicate num_envs 0;
          advantages = fst (fold (gae_step gamma gae_lambda rewards values dones next_value horizon)
                              (rev [0..<horizon]) (advantages0, last_gae0));
          returns = map2 vadd advantages values
      in (advantages, returns))"

text \<open>An array of shape \<open>(h, n)\<close>.\<close>

definition shaped :: "nat \<Rightarrow> nat \<Rightarrow> mat \<Rightarrow> bool" where
  "shaped h n m = (length m = h \<and> list_all (\<lambda>row. length row = n) m)"

text \<open>For the proofs: the loop state after the steps \<open>h - 1, ..., k\<close>, and the
  temporal-difference residual of lane \<open>j\<close> at step \<open>s\<close>.\<close>

definition gae_loop ::
  "real \<Rightarrow> real \<Rightarrow> mat \<Rightarrow> mat \<Rightarrow> mat \<Rightarrow> vec \<Rightarrow> nat \<Rightarrow> nat \<Rightarrow> nat \<Rightarrow> mat \<times> vec" where
  "gae_loop gamma lam rewards values dones nv h n k =
     fold (gae_step gamma lam rewards values dones nv h) (rev [k..<h])
       (replicate h (replicate n 0), replicate n 0)"

definition td_residual :: "real \<Rightarrow> mat \<Rightarrow> mat \<Rightarrow> mat \<Rightarrow> vec \<Rightarrow> nat \<Rightarrow> nat \<Rightarrow> nat \<Rightarrow> real" where
  "td_residual gamma rewards values dones nv h s j =
     rewards ! s ! j
       + gamma * (if s = h - 1 then nv ! j else values ! (s + 1) ! j) * (1 - dones ! s ! j)
       - values ! s ! j"

section \<open>Clipped surrogate objective (ppo.py, PPOUpdater.update)\<close>

text \<open>\<open>torch.clamp(x, lo, hi)\<close> is \<open>min(max(x, lo), hi)\<close>; \<open>torch.mean\<close> of a non-empty
  vector is its sum over its length (a mini-batch is never empty: it starts below
  \<open>batch_size\<close>).\<close>

definition clamp :: "real \<Rightarrow> real \<Rightarrow> real \<Rightarrow> real" where
  "clamp x lo hi = min (max x lo) hi"

definition mean :: "vec \<Rightarrow> real" where
  "mean xs = sum_list xs / real (length xs)"

text \<open>The quantities of one mini-batch: \<open>ratio\<close>, \<open>unclipped\<close>, \<open>clipped\<close> and
  \<open>policy_loss\<close>, computed from the joint log-probabilities under the current parameters,
  the stored old log-probabilities and the (normalised) advantages of the mini-batch.\<close>

record surrogate =
  ratio :: vec
  unclipped :: vec
  clipped :: vec
  policy_loss :: real

definition joint_log_prob :: "vec \<Rightarrow> vec \<Rightarrow> vec \<Rightarrow> vec \<Rightarrow> vec \<Rightarrow> vec" where
  "joint_log_prob action_logp unit_logp turret_logp buy_slot_logp sell_slot_logp =
     vadd (vadd (vadd (vadd action_logp unit_logp) turret_logp) buy_slot_logp) sell_slot_logp"

definition clipped_surrogate :: "real \<Rightarrow> vec \<Rightarrow> vec \<Rightarrow> vec \<Rightarrow> surrogate" where
  "clipped_surrogate clip_epsilon new_log_prob old_log_prob advantages =
     (let ratio = map exp (vsub new_log_prob old_log_prob);
          unclipped = vmul ratio advantages;
          clipped = vmul (map (\<lambda>r. clamp r (1 - clip_epsilon) (1 + clip_epsilon)) ratio) advantages;
          policy_loss = - mean (map2 min unclipped clipped)
      in \<lparr>ratio = ratio, unclipped = unclipped, clipped = clipped, policy_loss = policy_loss\<rparr>)"

section \<open>Masked action sampling (model.py, masked_logits and sample_action)\<close>




text \<open>\<open>torch.where(mask > 0, logits, torch.full_like(logits, large_negative))\<close>, row by
  row. \<open>large_negative\<close> is \<open>torch.finfo(logits.dtype).min\<close>, a parameter here.\<close>

definition masked_row :: "real \<Rightarrow> vec \<Rightarrow> vec \<Rightarrow> vec" where
  "masked_row large_negative logits msk =
     map2 (\<lambda>l m. if m > 0 then l else large_negative) logits msk"







text \<open>A concrete batch of one element: \<open>torch.finfo(torch.float32).min\<close>, logits, the masks
  (the sell-slot mask all zero, as the mock environment builds it) and a draw.\<close>

definition float32_min :: real where
  "float32_min = - ((2 - 1 / 2 ^ 23) * 2 ^ 127)"




section \<open>Mock environment (env.py, schemas.py, config.py)\<close>

text \<open>Python exceptions are values: a function that can raise returns \<open>py_error + result\<close>.\<close>

datatype py_error =
  IndexError | ValueError | AttributeError | ZeroDivisionError | KeyError | FileNotFoundError

datatype ActionType =
  WAIT | RECRUIT_UNIT | AGE_UP | UPGRADE_MANA | UPGRADE_TURRET_SLOTS
  | BUY_TURRET_ENGINE | SELL_TURRET_ENGINE | REPAIR_BASE

definition ACTIONS :: "ActionType list" where
  "ACTIONS = [WAIT, RECRUIT_UNIT, AGE_UP, UPGRADE_MANA, UPGRADE_TURRET_SLOTS,
              BUY_TURRET_ENGINE, SELL_TURRET_ENGINE, REPAIR_BASE]"

text \<open>\<open>ACTIONS.index(a)\<close> for an \<open>a\<close> of the list.\<close>

fun list_index :: "'a list \<Rightarrow> 'a \<Rightarrow> nat" where
  "list_index [] a = 0"
| "list_index (x # xs) a = (if x = a then 0 else Suc (list_index xs a))"

record Action =
  action_type :: ActionType
  unit_id :: "string option"
  turret_id :: "string option"
  slot_index :: "int option"
  confidence :: real

text \<open>The observation's \<open>tick\<close> and \<open>game_time\<close> are \<open>obs_tick\<close> and \<open>obs_game_time\<close> here,
  since the environment state has fields of the same names.\<close>

record Observation =
  obs_tick :: int
  obs_game_time :: real
  static_state :: "real list"
  event_sequence :: "real list list"
  action_type_mask :: "int list"
  unit_mask :: "int list"
  turret_mask :: "int list"
  buy_slot_mask :: "int list"
  sell_slot_mask :: "int list"

record RewardComponents =
  enemy_unit_kill_value :: real
  own_unit_loss_value :: real
  enemy_base_damage :: real
  own_base_damage :: real
  safe_age_up_bonus :: real
  lane_control_delta :: real
  illegal_action_penalty :: real
  terminal_outcome :: real

text \<open>The sizes of \<open>ModelConfig\<close> are natural numbers.\<close>

record ModelConfig =
  static_dim :: nat
  sequence_len :: nat
  token_dim :: nat
  action_dim :: nat
  unit_dim :: nat
  turret_dim :: nat
  slot_dim :: nat
  d_model :: nat
  n_heads :: nat
  n_layers :: nat
  ffn_dim :: nat
  dropout :: real

record MockEnvState =
  tick :: int
  game_time :: real
  own_base_hp :: real
  opp_base_hp :: real
  own_units :: real
  opp_units :: real
  own_gold :: real
  own_mana :: real
  own_age :: int
  own_mana_level :: int

definition initial_state :: MockEnvState where
  "initial_state = \<lparr>tick = 0, game_time = 0, own_base_hp = 1000, opp_base_hp = 1000,
     own_units = 0, opp_units = 0, own_gold = 150, own_mana = 0, own_age = 1,
     own_mana_level = 0\<rparr>"

text \<open>
  numpy's generator is library code: \<open>np.random.default_rng(seed)\<close> and
  \<open>rng.uniform(lo, hi)\<close> are parameters of the model, over any type \<open>'g\<close> of generator
  states. A draw returns the number and the generator's next state.
\<close>

record 'g rng_ops =
  default_rng :: "int \<Rightarrow> 'g"
  uniform :: "'g \<Rightarrow> real \<Rightarrow> real \<Rightarrow> real \<times> 'g"

record 'g MockSelfPlayEnv =
  model_cfg :: ModelConfig
  max_ticks :: int
  rng :: 'g
  state :: MockEnvState
  last_damage_to_opp :: real
  last_damage_to_self :: real

text \<open>\<open>np.clip(x, lo, hi)\<close> is \<open>minimum(maximum(x, lo), hi)\<close>.\<close>

definition np_clip :: "real \<Rightarrow> real \<Rightarrow> real \<Rightarrow> real" where
  "np_clip x lo hi = min (max x lo) hi"

text \<open>
  \<open>_build_observation\<close>. The writes \<open>static[0..11]\<close> raise IndexError when \<open>static_dim\<close> is
  below 12, the writes \<open>sequence[-1, 0..7]\<close> when \<open>sequence_len\<close> is 0 or \<open>token_dim\<close> is below
  8. The rounding of the float32 arrays is not modelled.
\<close>

definition build_observation :: "'g MockSelfPlayEnv \<Rightarrow> py_error + Observation" where
  "build_observation env =
     (let cfg = model_cfg env; s = state env in
      if static_dim cfg < 12 then Inl IndexError
      else if sequence_len cfg = 0 \<or> token_dim cfg < 8 then Inl IndexError
      else
        (let static =
               [np_clip (game_time s / 600) 0 1,
                np_clip (real_of_int (tick s) / 36000) 0 1,
                np_clip (own_gold s / 10000) 0 1,
                np_clip (own_mana s / 5000) 0 1,
                np_clip (real_of_int (own_age s) / 6) 0 1,
                np_clip (real_of_int (own_mana_level s) / 40) 0 1,
                np_clip (own_units s / 40) 0 1,
                np_clip (opp_units s / 40) 0 1,
                np_clip (own_base_hp s / 1000) 0 1,
                np_clip (opp_base_hp s / 1000) 0 1,
                np_clip ((own_units s - opp_units s) / 50) (-1) 1,
                np_clip ((own_base_hp s - opp_base_hp s) / 1000) (-1) 1]
               @ replicate (static_dim cfg - 12) 0;
             last_token =
               [2 / 3,
                real (list_index ACTIONS WAIT + 1) / real (length ACTIONS + 1),
                0, 0, 0,
                0.25,
                np_clip ((last_damage_to_opp env - last_damage_to_self env) / 20) (-1) 1,
                np_clip (last_damage_to_opp env / 200) 0 1]
               @ replicate (token_dim cfg - 8) 0;
             sequence = replicate (sequence_len cfg - 1) (replicate (token_dim cfg) 0) @ [last_token]
         in Inr \<lparr>obs_tick = tick s, obs_game_time = game_time s,
                 static_state = static, event_sequence = sequence,
                 action_type_mask =
                   [1, 1, if own_age s < 6 then 1 else 0, 1, 1, 1, 0,
                    if own_mana s \<ge> 120 then 1 else 0],
                 unit_mask = replicate (unit_dim cfg) 1,
                 turret_mask = replicate (turret_dim cfg) 1,
                 buy_slot_mask = replicate (slot_dim cfg) 1,
                 sell_slot_mask = replicate (slot_dim cfg) 0\<rparr>))"

text \<open>\<open>reset\<close>; \<open>default_rng\<close> raises ValueError on a negative seed.\<close>

definition reset :: "'g rng_ops \<Rightarrow> 'g MockSelfPlayEnv \<Rightarrow> int \<Rightarrow> py_error + (Observation \<times> 'g MockSelfPlayEnv)" where
  "reset R env seed =
     (if seed < 0 then Inl ValueError
      else
        (let env' = env\<lparr>rng := default_rng R seed, state := initial_state,
                        last_damage_to_opp := 0, last_damage_to_self := 0\<rparr>
         in case build_observation env' of
              Inl e \<Rightarrow> Inl e
            | Inr obs \<Rightarrow> Inr (obs, env')))"

text \<open>The \<open>if/elif\<close> chain of \<open>step\<close> on the action type: the new state and the illegal-action
  penalty.\<close>

definition apply_action :: "MockEnvState \<Rightarrow> Action \<Rightarrow> MockEnvState \<times> real" where
  "apply_action s action =
     (case action_type action of
        RECRUIT_UNIT \<Rightarrow>
          (if own_gold s \<ge> 25
           then (s\<lparr>own_gold := own_gold s - 25, own_units := own_units s + 1.25\<rparr>, 0)
           else (s, - 0.2))
      | AGE_UP \<Rightarrow>
          (let cost = 350 + own_age s * 180 in
           if own_age s < 6 \<and> own_gold s \<ge> real_of_int cost
           then (s\<lparr>own_gold := own_gold s - real_of_int cost, own_age := own_age s + 1\<rparr>, 0)
           else (s, - 0.2))
      | UPGRADE_MANA \<Rightarrow>
          (let cost = 120 + own_mana_level s * 80 in
           if own_gold s \<ge> real_of_int cost
           then (s\<lparr>own_gold := own_gold s - real_of_int cost,
                   own_mana_level := own_mana_level s + 1\<rparr>, 0)
           else (s, - 0.2))
      | REPAIR_BASE \<Rightarrow>
          (if own_mana s \<ge> 120
           then (s\<lparr>own_mana := own_mana s - 120,
                   own_base_hp := min 1000 (own_base_hp s + 65)\<rparr>, 0)
           else (s, - 0.2))
      | _ \<Rightarrow> (s, 0))"

definition simulate_opponent_policy :: "'g rng_ops \<Rightarrow> 'g MockSelfPlayEnv \<Rightarrow> 'g MockSelfPlayEnv" where
  "simulate_opponent_policy R env =
     (let (u, g) = uniform R (rng env) 0 0.6;
          s1 = (state env)\<lparr>opp_units := opp_units (state env) + (0.7 + u)\<rparr>;
          s2 = (if tick s1 mod 240 = 0 then s1\<lparr>opp_units := opp_units s1 + 3\<rparr> else s1)
      in env\<lparr>rng := g, state := s2\<rparr>)"

definition simulate_battle :: "'g MockSelfPlayEnv \<Rightarrow> 'g MockSelfPlayEnv" where
  "simulate_battle env =
     (let s = state env;
          clash = min (own_units s) (opp_units s);
          own' = max 0 (own_units s - clash * 0.55);
          opp' = max 0 (opp_units s - clash * 0.6);
          to_opp = max 0 (own' * 1.4 - opp' * 0.4);
          to_self = max 0 (opp' * 1.2 - own' * 0.35)
      in env\<lparr>state := s\<lparr>own_units := own', opp_units := opp',
                            opp_base_hp := max 0 (opp_base_hp s - to_opp),
                            own_base_hp := max 0 (own_base_hp s - to_self)\<rparr>,
              last_damage_to_opp := to_opp, last_damage_to_self := to_self\<rparr>)"

text \<open>What \<open>step\<close> returns: observation, reward, done, info and reward components.\<close>

type_synonym step_result = "Observation \<times> real \<times> bool \<times> (string \<times> real) list \<times> RewardComponents"

text \<open>The body of \<open>step\<close> after its first line, with \<open>prev\<close> the copy of the state taken
  there.\<close>

definition step_body :: "'g rng_ops \<Rightarrow> 'g MockSelfPlayEnv \<Rightarrow> MockEnvState \<Rightarrow> Action \<Rightarrow> py_error + (step_result \<times> 'g MockSelfPlayEnv)" where
  "step_body R env prev action =
     (let (s_act, illegal_penalty) = apply_action (state env) action;
          env1 = simulate_battle (simulate_opponent_policy R (env\<lparr>state := s_act\<rparr>));
          s1 = state env1;
          s2 = s1\<lparr>tick := tick s1 + 1\<rparr>;
          s3 = s2\<lparr>game_time := real_of_int (tick s2) * 0.5\<rparr>;
          s4 = s3\<lparr>own_gold := own_gold s3 + (8 + real_of_int (own_age s3) * 1.4)\<rparr>;
          s = s4\<lparr>own_mana := own_mana s4 + real_of_int (own_mana_level s4) * 0.8\<rparr>;
          env2 = env1\<lparr>state := s\<rparr>;
          rc = \<lparr>enemy_unit_kill_value = max 0 (opp_units prev - opp_units s) * 0.12,
                own_unit_loss_value = - max 0 (own_units prev - own_units s) * 0.1,
                enemy_base_damage = max 0 (opp_base_hp prev - opp_base_hp s) * 0.02,
                own_base_damage = - max 0 (own_base_hp prev - own_base_hp s) * 0.02,
                safe_age_up_bonus = (if own_age s > own_age prev \<and> own_base_hp s > 550 then 0.2 else 0),
                lane_control_delta = (own_units s - opp_units s) * 0.01,
                illegal_action_penalty = illegal_penalty,
                terminal_outcome = 0\<rparr>;
          reward = enemy_unit_kill_value rc + own_unit_loss_value rc + enemy_base_damage rc
                   + own_base_damage rc + safe_age_up_bonus rc + lane_control_delta rc
                   + illegal_action_penalty rc;
          done = (own_base_hp s \<le> 0 \<or> opp_base_hp s \<le> 0 \<or> tick s \<ge> max_ticks env);
          rc' = (if done then
                   (if opp_base_hp s \<le> 0 \<and> own_base_hp s > 0 then rc\<lparr>terminal_outcome := 2\<rparr>
                    else if own_base_hp s \<le> 0 \<and> opp_base_hp s > 0 then rc\<lparr>terminal_outcome := - 2\<rparr>
                    else rc)
                 else rc);
          reward' = (if done then reward + terminal_outcome rc' else reward);
          info = [(''own_base_hp'', own_base_hp s), (''opp_base_hp'', opp_base_hp s),
                  (''own_units'', own_units s), (''opp_units'', opp_units s)]
      in case build_observation env2 of
           Inl e \<Rightarrow> Inl e
         | Inr obs \<Rightarrow> Inr ((obs, reward', done, info, rc'), env2))"

text \<open>
  The first line of \<open>step\<close> is \<open>prev = MockEnvState(**self.state.__dict__)\<close>.
  \<open>MockEnvState\<close> is declared \<open>@dataclass(slots=True)\<close>, so its instances have no
  \<open>__dict__\<close> and the read raises AttributeError: \<open>state_dict\<close> is that read, and \<open>step\<close>
  is the code as it stands. \<open>step_from\<close> takes the read as a parameter, so that the
  properties below also cover the rest of the body (with \<open>Inr\<close> for a read that returns
  the fields).
\<close>

definition state_dict :: "MockEnvState \<Rightarrow> py_error + MockEnvState" where
  "state_dict s = Inl AttributeError"

definition step_from ::
  "(MockEnvState \<Rightarrow> py_error + MockEnvState) \<Rightarrow> 'g rng_ops \<Rightarrow> 'g MockSelfPlayEnv \<Rightarrow> Action
     \<Rightarrow> py_error + (step_result \<times> 'g MockSelfPlayEnv)" where
  "step_from copy R env action =
     (case copy (state env) of
        Inl e \<Rightarrow> Inl e
      | Inr prev \<Rightarrow> step_body R env prev action)"

definition step :: "'g rng_ops \<Rightarrow> 'g MockSelfPlayEnv \<Rightarrow> Action \<Rightarrow> py_error + (step_result \<times> 'g MockSelfPlayEnv)" where
  "step R env action = step_from state_dict R env action"

text \<open>A run: \<open>reset\<close>, then one \<open>step\<close> per action until the first exception. It returns
  the first observation, the results of the steps that returned and the exception, if any.\<close>

fun step_all ::
  "(MockEnvState \<Rightarrow> py_error + MockEnvState) \<Rightarrow> 'g rng_ops \<Rightarrow> 'g MockSelfPlayEnv \<Rightarrow> Action list
     \<Rightarrow> step_result list \<times> py_error option \<times> 'g MockSelfPlayEnv" where
  "step_all copy R env [] = ([], None, env)"
| "step_all copy R env (a # as) =
     (case step_from copy R env a of
        Inl e \<Rightarrow> ([], Some e, env)
      | Inr (out, env') \<Rightarrow>
          (case step_all copy R env' as of (outs, err, env'') \<Rightarrow> (out # outs, err, env'')))"

definition run_episode ::
  "(MockEnvState \<Rightarrow> py_error + MockEnvState) \<Rightarrow> 'g rng_ops \<Rightarrow> 'g MockSelfPlayEnv \<Rightarrow> int \<Rightarrow> Action list
     \<Rightarrow> py_error + (Observation \<times> step_result list \<times> py_error option)" where
  "run_episode copy R env seed actions =
     (case reset R env seed of
        Inl e \<Rightarrow> Inl e
      | Inr (obs, env') \<Rightarrow>
          (case step_all copy R env' actions of (outs, err, env'') \<Rightarrow> Inr (obs, outs, err)))"

text \<open>Concrete configurations, a toy generator and environments to run the code on.\<close>

definition default_cfg :: ModelConfig where
  "default_cfg = \<lparr>static_dim = 56, sequence_len = 240, token_dim = 8, action_dim = 8,
     unit_dim = 128, turret_dim = 32, slot_dim = 4, d_model = 256, n_heads = 8, n_layers = 8,
     ffn_dim = 1024, dropout = 0.1\<rparr>"

definition small_cfg :: ModelConfig where
  "small_cfg = \<lparr>static_dim = 12, sequence_len = 2, token_dim = 8, action_dim = 8,
     unit_dim = 2, turret_dim = 2, slot_dim = 4, d_model = 4, n_heads = 1, n_layers = 1,
     ffn_dim = 4, dropout = 0\<rparr>"

definition toy_rng :: "nat rng_ops" where
  "toy_rng = \<lparr>default_rng = (\<lambda>seed. nat seed),
              uniform = (\<lambda>g lo hi. (lo + (hi - lo) * real (g mod 4) / 4, 5 * g + 3))\<rparr>"

definition new_env :: "ModelConfig \<Rightarrow> nat MockSelfPlayEnv" where
  "new_env cfg = \<lparr>model_cfg = cfg, max_ticks = 2400, rng = default_rng toy_rng 0,
     state = initial_state, last_damage_to_opp = 0, last_damage_to_self = 0\<rparr>"

definition act :: "ActionType \<Rightarrow> Action" where
  "act t = \<lparr>action_type = t, unit_id = None, turret_id = None, slot_index = None, confidence = 0\<rparr>"

definition used_env :: "nat MockSelfPlayEnv" where
  "used_env = (new_env small_cfg)\<lparr>rng := 99,
      state := initial_state\<lparr>tick := 17, own_gold := 3, opp_units := 12\<rparr>,
      last_damage_to_opp := 4, last_damage_to_self := 9\<rparr>"

text \<open>The mask properties of an observation.\<close>

definition mask_invariant :: "ModelConfig \<Rightarrow> Observation \<Rightarrow> bool" where
  "mask_invariant cfg obs =
     (length (action_type_mask obs) = 8
      \<and> action_type_mask obs ! 0 = 1 \<and> action_type_mask obs ! 6 = 0
      \<and> length (sell_slot_mask obs) = slot_dim cfg
      \<and> sell_slot_mask obs = replicate (slot_dim cfg) 0)"

section \<open>Trainer loop (trainer.py, config.py)\<close>

record PPOConfig =
  gamma :: real
  gae_lambda :: real
  clip_epsilon :: real
  value_coef :: real
  entropy_coef :: real
  entropy_coef_min :: real
  entropy_anneal_steps :: int
  learning_rate :: real
  weight_decay :: real
  grad_clip_norm :: real
  ppo_epochs :: int
  minibatch_size :: int
  kl_target :: real
  kl_hard_stop :: real

record RuntimeConfig =
  seed :: int
  num_envs :: int
  rollout_horizon :: int
  total_steps :: int
  checkpoint_every :: int
  eval_every :: int
  eval_matches :: int
  save_dir :: string
  device :: string
  mixed_precision :: bool
  log_interval :: int
  entropy_floor_alert :: real

record OvernightConfig =
  ppo :: PPOConfig
  model_conf :: ModelConfig
  runtime :: RuntimeConfig

text \<open>A metric is a float that may be NaN or infinite. \<open>ppo.update\<close> returns a dictionary
  from names to metrics; the comparison \<open>v < a\<close> with a finite \<open>a\<close> is \<open>fval_less\<close>.\<close>

datatype fval = Finite real | PosInf | NegInf | NaN

fun isnan :: "fval \<Rightarrow> bool" where
  "isnan NaN = True"
| "isnan _ = False"

fun isinf :: "fval \<Rightarrow> bool" where
  "isinf PosInf = True"
| "isinf NegInf = True"
| "isinf _ = False"

fun fval_less :: "fval \<Rightarrow> real \<Rightarrow> bool" where
  "fval_less (Finite x) a = (x < a)"
| "fval_less NegInf a = True"
| "fval_less PosInf a = False"
| "fval_less NaN a = False"

type_synonym metrics = "(string \<times> fval) list"

definition lookup :: "metrics \<Rightarrow> string \<Rightarrow> py_error + fval" where
  "lookup m k = (case map_of m k of None \<Rightarrow> Inl KeyError | Some v \<Rightarrow> Inr v)"

text \<open>The lines the trainer prints, by kind: progress line, entropy alert, checkpoint
  notice, the two guard notices, evaluation line and the closing line.\<close>

datatype event =
  LogLine int fval fval fval fval
  | EntropyAlert fval real
  | CheckpointSaved string
  | GuardNoCheckpoint
  | GuardRolledBack string
  | EvalLine int real
  | TrainingComplete

text \<open>
  Model parameters, optimizer state, the environment lanes (\<open>self.envs\<close> with \<open>self.obs\<close>)
  and the rollout batch are abstract: types \<open>'m\<close>, \<open>'o\<close>, \<open>'l\<close> and \<open>'b\<close>. A checkpoint file
  holds the payload of \<open>_save_checkpoint\<close>. The trainer state carries, besides the fields
  of \<open>SelfPlayTrainer\<close>, the checkpoint files on disk (\<open>files\<close>) and the lines printed so far
  (\<open>printed\<close>).
\<close>

record ('m, 'o) checkpoint =
  ck_step :: int
  ck_model :: 'm
  ck_optimizer :: 'o
  ck_config :: OvernightConfig

record ('m, 'o, 'l) SelfPlayTrainer =
  cfg :: OvernightConfig
  model :: 'm
  optimizer :: 'o
  league :: LeaguePool
  lanes :: 'l
  global_step :: int
  last_good_checkpoint :: "string option"
  files :: "string \<rightharpoonup> ('m, 'o) checkpoint"
  printed :: "event list"

text \<open>
  What the loop calls and the properties below do not look into: \<open>_collect_rollout\<close> (it steps
  the environments, so it can raise), \<open>self.ppo.update\<close> (it returns the metrics and leaves
  new model parameters and optimizer state) and \<open>evaluate\<close>.
\<close>

record ('m, 'o, 'l, 'b) collaborators =
  collect_rollout :: "OvernightConfig \<Rightarrow> 'm \<Rightarrow> int \<Rightarrow> 'l \<Rightarrow> py_error + ('b \<times> 'l)"
  update_policy :: "PPOConfig \<Rightarrow> 'm \<Rightarrow> 'o \<Rightarrow> 'b \<Rightarrow> metrics \<times> 'm \<times> 'o"
  evaluate :: "OvernightConfig \<Rightarrow> 'm \<Rightarrow> int \<Rightarrow> py_error + real"

text \<open>\<open>str(Path(save_dir) / f"checkpoint_{global_step}.pt")\<close>, for a \<open>save_dir\<close> without a
  trailing separator.\<close>

definition digit_char :: "nat \<Rightarrow> char" where
  "digit_char d = char_of (48 + d)"

fun str_nat :: "nat \<Rightarrow> string" where
  "str_nat n = (if n < 10 then [digit_char n] else str_nat (n div 10) @ [digit_char (n mod 10)])"

definition str_int :: "int \<Rightarrow> string" where
  "str_int i = (if i < 0 then CHR ''-'' # str_nat (nat (- i)) else str_nat (nat i))"

definition checkpoint_file :: "string \<Rightarrow> int \<Rightarrow> string" where
  "checkpoint_file dir n = dir @ ''/checkpoint_'' @ str_int n @ ''.pt''"

definition save_checkpoint :: "('m, 'o, 'l) SelfPlayTrainer \<Rightarrow> string \<times> ('m, 'o, 'l) SelfPlayTrainer" where
  "save_checkpoint t =
     (let path = checkpoint_file (save_dir (runtime (cfg t))) (global_step t);
          payload = \<lparr>ck_step = global_step t, ck_model = model t, ck_optimizer = optimizer t,
                     ck_config = cfg t\<rparr>
      in (path, t\<lparr>files := (files t)(path \<mapsto> payload),
                   printed := printed t @ [CheckpointSaved path]\<rparr>))"

text \<open>\<open>not self.last_good_checkpoint\<close>: true of \<open>None\<close> and of the empty string.\<close>

definition falsy :: "string option \<Rightarrow> bool" where
  "falsy p = (p = None \<or> p = Some [])"

definition rollback_checkpoint :: "('m, 'o, 'l) SelfPlayTrainer \<Rightarrow> py_error + ('m, 'o, 'l) SelfPlayTrainer" where
  "rollback_checkpoint t =
     (if falsy (last_good_checkpoint t)
      then Inr (t\<lparr>printed := printed t @ [GuardNoCheckpoint]\<rparr>)
      else
        (let path = the (last_good_checkpoint t) in
         case files t path of
           None \<Rightarrow> Inl FileNotFoundError
         | Some st \<Rightarrow>
             Inr (t\<lparr>model := ck_model st, optimizer := ck_optimizer st,
                     printed := printed t @ [GuardRolledBack path]\<rparr>)))"

text \<open>\<open>_anneal_entropy\<close>: it reads and overwrites \<open>cfg.ppo.entropy_coef\<close>.\<close>

definition anneal_entropy :: "('m, 'o, 'l) SelfPlayTrainer \<Rightarrow> ('m, 'o, 'l) SelfPlayTrainer" where
  "anneal_entropy t =
     (let p = ppo (cfg t);
          progress = min 1 (real_of_int (global_step t) / real_of_int (max 1 (entropy_anneal_steps p)));
          p' = p\<lparr>entropy_coef := entropy_coef p * (1 - progress) + entropy_coef_min p * progress\<rparr>
      in t\<lparr>cfg := (cfg t)\<lparr>ppo := p'\<rparr>\<rparr>)"

text \<open>The three periodic blocks of the loop body; \<open>%\<close> by zero raises.\<close>

definition log_phase :: "metrics \<Rightarrow> ('m, 'o, 'l) SelfPlayTrainer \<Rightarrow> py_error + ('m, 'o, 'l) SelfPlayTrainer" where
  "log_phase m t =
     (let rt = runtime (cfg t) in
      if log_interval rt = 0 then Inl ZeroDivisionError
      else if global_step t mod log_interval rt = 0 then
        (case lookup m ''policy_loss'' of Inl e \<Rightarrow> Inl e | Inr pl \<Rightarrow>
         case lookup m ''value_loss'' of Inl e \<Rightarrow> Inl e | Inr vl \<Rightarrow>
         case lookup m ''entropy'' of Inl e \<Rightarrow> Inl e | Inr en \<Rightarrow>
         case lookup m ''kl'' of Inl e \<Rightarrow> Inl e | Inr kl \<Rightarrow>
           (let t1 = t\<lparr>printed := printed t @ [LogLine (global_step t) pl vl en kl]\<rparr> in
            if fval_less en (entropy_floor_alert rt)
            then Inr (t1\<lparr>printed := printed t1 @ [EntropyAlert en (entropy_floor_alert rt)]\<rparr>)
            else Inr t1))
      else Inr t)"

definition checkpoint_phase :: "('m, 'o, 'l) SelfPlayTrainer \<Rightarrow> py_error + ('m, 'o, 'l) SelfPlayTrainer" where
  "checkpoint_phase t =
     (let rt = runtime (cfg t) in
      if checkpoint_every rt = 0 then Inl ZeroDivisionError
      else if global_step t mod checkpoint_every rt = 0 then
        (let (path, t1) = save_checkpoint t in Inr (t1\<lparr>last_good_checkpoint := Some path\<rparr>))
      else Inr t)"

definition eval_phase ::
  "('m, 'o, 'l, 'b) collaborators \<Rightarrow> ('m, 'o, 'l) SelfPlayTrainer \<Rightarrow> py_error + ('m, 'o, 'l) SelfPlayTrainer" where
  "eval_phase C t =
     (let rt = runtime (cfg t) in
      if eval_every rt = 0 then Inl ZeroDivisionError
      else if global_step t mod eval_every rt = 0 then
        (case evaluate C (cfg t) (model t) (eval_matches rt) of
           Inl e \<Rightarrow> Inl e
         | Inr winrate \<Rightarrow>
             (let t1 = (if falsy (last_good_checkpoint t) then t
                        else
                          (let (entry, pool1) = add_checkpoint (league t) (the (last_good_checkpoint t))
                                                  (global_step t) winrate;
                               (promoted, pool2) = promote_if_qualified pool1 entry
                                                  (map winrate_vs_smart (top pool1 3))
                           in t\<lparr>league := pool2\<rparr>))
              in Inr (t1\<lparr>printed := printed t1 @ [EvalLine (global_step t) winrate]\<rparr>)))
      else Inr t)"

text \<open>One pass through the body of \<open>while self.global_step < runtime.total_steps\<close>; the
  \<open>continue\<close> after the rollback ends the pass.\<close>

definition train_iteration ::
  "('m, 'o, 'l, 'b) collaborators \<Rightarrow> ('m, 'o, 'l) SelfPlayTrainer \<Rightarrow> py_error + ('m, 'o, 'l) SelfPlayTrainer" where
  "train_iteration C t =
     (case collect_rollout C (cfg t) (model t) (global_step t) (lanes t) of
        Inl e \<Rightarrow> Inl e
      | Inr (batch, lanes') \<Rightarrow>
          (let (m, model', optimizer') = update_policy C (ppo (cfg t)) (model t) (optimizer t) batch;
               t1 = t\<lparr>lanes := lanes', model := model', optimizer := optimizer'\<rparr>;
               t2 = anneal_entropy t1;
               t3 = t2\<lparr>global_step := global_step t2
                          + rollout_horizon (runtime (cfg t2)) * num_envs (runtime (cfg t2))\<rparr>
           in if list_ex (\<lambda>v. isnan v \<or> isinf v) (map snd m)
              then rollback_checkpoint t3
              else
                (case log_phase m t3 of Inl e \<Rightarrow> Inl e | Inr t4 \<Rightarrow>
                 case checkpoint_phase t4 of Inl e \<Rightarrow> Inl e | Inr t5 \<Rightarrow>
                 eval_phase C t5)))"

text \<open>The loop. It need not terminate (a rollout of zero steps never advances
  \<open>global_step\<close>), so not returning is the value \<open>None\<close>.\<close>

partial_function (option) train ::
  "('m, 'o, 'l, 'b) collaborators \<Rightarrow> ('m, 'o, 'l) SelfPlayTrainer \<Rightarrow> (py_error + ('m, 'o, 'l) SelfPlayTrainer) option" where
  "train C t =
     (if global_step t < total_steps (runtime (cfg t)) then
        (case train_iteration C t of
           Inl e \<Rightarrow> Some (Inl e)
         | Inr t' \<Rightarrow> train C t')
      else Some (Inr (t\<lparr>printed := printed t @ [TrainingComplete]\<rparr>)))"

text \<open>The first \<open>n\<close> passes of the loop body.\<close>

fun train_n ::
  "('m, 'o, 'l, 'b) collaborators \<Rightarrow> nat \<Rightarrow> ('m, 'o, 'l) SelfPlayTrainer \<Rightarrow> py_error + ('m, 'o, 'l) SelfPlayTrainer" where
  "train_n C 0 t = Inr t"
| "train_n C (Suc n) t =
     (case train_iteration C t of Inl e \<Rightarrow> Inl e | Inr t' \<Rightarrow> train_n C n t')"

text \<open>The entropy coefficient in the specification's words: the linear interpolation
  from the initial value to the floor at a given cumulative step count.\<close>

definition spec_entropy_coef :: "real \<Rightarrow> real \<Rightarrow> int \<Rightarrow> int \<Rightarrow> real" where
  "spec_entropy_coef initial coef_min anneal_steps step_count =
     (let p = min 1 (real_of_int step_count / real_of_int anneal_steps)
      in initial * (1 - p) + coef_min * p)"

text \<open>A concrete configuration (the defaults, with an anneal over 4 steps and one lane of
  horizon 1), collaborators that return fixed metrics, and two trainer states: a fresh one
  and one that has a checkpoint on disk.\<close>

definition ppo0 :: PPOConfig where
  "ppo0 = \<lparr>gamma = 0.995, gae_lambda = 0.95, clip_epsilon = 0.2, value_coef = 0.5,
     entropy_coef = 0.01, entropy_coef_min = 0.001, entropy_anneal_steps = 4,
     learning_rate = 0.0003, weight_decay = 0.01, grad_clip_norm = 0.5, ppo_epochs = 4,
     minibatch_size = 1024, kl_target = 0.03, kl_hard_stop = 0.08\<rparr>"

definition runtime0 :: RuntimeConfig where
  "runtime0 = \<lparr>seed = 1337, num_envs = 1, rollout_horizon = 1, total_steps = 10000000,
     checkpoint_every = 100000, eval_every = 200000, eval_matches = 200,
     save_dir = ''checkpoints'', device = ''cpu'', mixed_precision = True,
     log_interval = 2048, entropy_floor_alert = 0.003\<rparr>"

definition cfg0 :: OvernightConfig where
  "cfg0 = \<lparr>ppo = ppo0, model_conf = default_cfg, runtime = runtime0\<rparr>"

definition finite_metrics :: metrics where
  "finite_metrics = [(''policy_loss'', Finite 0.1), (''value_loss'', Finite 0.2),
     (''entropy'', Finite 1.5), (''kl'', Finite 0.01), (''clips'', Finite 0),
     (''updates'', Finite 4)]"

definition nan_metrics :: metrics where
  "nan_metrics = [(''policy_loss'', Finite 0.1), (''value_loss'', NaN),
     (''entropy'', Finite 1.5), (''kl'', Finite 0.01), (''clips'', Finite 0),
     (''updates'', Finite 4)]"

definition collab0 :: "metrics \<Rightarrow> (int, int, unit, unit) collaborators" where
  "collab0 m = \<lparr>collect_rollout = (\<lambda>c mdl gs l. Inr ((), l)),
                update_policy = (\<lambda>p mdl opt b. (m, mdl + 1, opt + 1)),
                evaluate = (\<lambda>c mdl n. Inr 0.5)\<rparr>"

definition trainer0 :: "(int, int, unit) SelfPlayTrainer" where
  "trainer0 = \<lparr>cfg = cfg0, model = 0, optimizer = 0,
     league = \<lparr>keep_top_n = 8, entries = []\<rparr>, lanes = (), global_step = 0,
     last_good_checkpoint = None, files = Map.empty, printed = []\<rparr>"

definition trainer_ck :: "(int, int, unit) SelfPlayTrainer" where
  "trainer_ck = trainer0\<lparr>model := 5, optimizer := 6, global_step := 100001,
     last_good_checkpoint := Some ''checkpoints/checkpoint_100000.pt'',
     files := [''checkpoints/checkpoint_100000.pt'' \<mapsto>
                 \<lparr>ck_step = 100000, ck_model = 3, ck_optimizer = 4, ck_config = cfg0\<rparr>]\<rparr>"

section \<open>Properties of the league pool\<close>

lemma fold_min_gt: "(fold min bs (b::real) > w) = (w < b \<and> list_all (\<lambda>x. w < x) bs)"
  by (induction bs arbitrary: b) auto

lemma baseline_blocks_iff:
  "baseline_blocks top3 w = (top3 \<noteq> [] \<and> list_all (\<lambda>b. w < b) top3)"
  by (cases top3) (simp_all add: fold_min_gt)

lemma pool_one_eq: "pool_one = \<lparr>keep_top_n = 1, entries =
   [\<lparr>checkpoint_path = ''checkpoints/checkpoint_100.pt'', steps = 100, elo = 1040,
     winrate_vs_smart = 0.6\<rparr>]\<rparr>"
  by (simp add: pool_one_def add_checkpoint_def Let_def sort_reverse_def slice_to_def)

lemma pool_two_eq: "pool_two =
  (\<lparr>checkpoint_path = ''checkpoints/checkpoint_200.pt'', steps = 200, elo = 1080,
    winrate_vs_smart = 0.7\<rparr>,
   \<lparr>keep_top_n = 1, entries =
   [\<lparr>checkpoint_path = ''checkpoints/checkpoint_200.pt'', steps = 200, elo = 1080,
     winrate_vs_smart = 0.7\<rparr>,
    \<lparr>checkpoint_path = ''checkpoints/checkpoint_100.pt'', steps = 100, elo = 1040,
     winrate_vs_smart = 0.6\<rparr>]\<rparr>)"
  by (simp add: pool_two_def pool_one_eq add_checkpoint_def Let_def sort_reverse_def
      slice_to_def entry_key_def)

text \<open>An admitted candidate leaves the list sorted by key, descending.\<close>

lemma sort_reverse_sorted: "sorted (rev (map entry_key (sort_reverse xs)))"
  by (simp add: sort_reverse_def rev_map [symmetric])

text \<open>The slice bound is \<open>max(keep_top_n, len(entries))\<close>, which is never below the
  length: admission never drops an entry.\<close>

lemma promote_if_qualified_no_truncation:
  "fst (promote_if_qualified pool c top3) \<Longrightarrow>
   length (entries (snd (promote_if_qualified pool c top3))) \<ge> length (entries pool)"
  by (auto simp: promote_if_qualified_def Let_def sort_reverse_def slice_to_def split: if_splits)

lemma promote_if_qualified_sorted:
  "fst (promote_if_qualified pool c top3) \<Longrightarrow>
   sorted (rev (map entry_key (entries (snd (promote_if_qualified pool c top3)))))"
  by (auto simp: promote_if_qualified_def Let_def slice_to_def max_def sort_reverse_sorted
      split: if_splits)

text \<open>
  C4. Claim: whenever \<open>promote_if_qualified\<close> admits a candidate, the entry list is
  sorted descending and holds at most \<open>keep_top_n\<close> entries. The code run at a pool of
  capacity 1 that holds two entries (the second just deposited by \<open>add_checkpoint\<close>):
  the candidate is admitted and the pool still holds two entries.
\<close>

theorem promote_if_qualified_exceeds_capacity:
  "fst (promote_if_qualified (snd pool_two) (fst pool_two)
          (map winrate_vs_smart (top (snd pool_two) 3))) = True
   \<and> length (entries (snd (promote_if_qualified (snd pool_two) (fst pool_two)
         (map winrate_vs_smart (top (snd pool_two) 3))))) = 2
   \<and> keep_top_n (snd (promote_if_qualified (snd pool_two) (fst pool_two)
         (map winrate_vs_smart (top (snd pool_two) 3)))) = 1"
  by (simp add: pool_two_eq promote_if_qualified_def top_def Let_def sort_reverse_def
      slice_to_def entry_key_def)

text \<open>
  C8 as stated fails on the empty baseline list: "every entry is strictly higher" holds
  of no entries, so the specification's rule rejects, while the code's guard
  \<open>top3_baseline and ...\<close> skips the comparison and admits.
\<close>

theorem promote_empty_baseline_counterexample:
  "spec_rejects (winrate_vs_smart cand70) [] = True
   \<and> fst (promote_if_qualified \<lparr>keep_top_n = 8, entries = []\<rparr> cand70 []) = True"
  by (simp add: spec_rejects_def promote_if_qualified_def cand70_def Let_def)

text \<open>
  C8, amended. \<open>promote_if_qualified\<close> rejects (returns false and leaves the pool as it
  was) exactly when the candidate's win-rate is below 0.55, or the supplied baseline list
  is non-empty and every entry of it is strictly higher than the candidate's win-rate. So
  a candidate with win-rate 0.50 is never promoted, and one with win-rate 0.70 against
  the baselines 0.60, 0.62, 0.65 is promoted.
\<close>

theorem promote_if_qualified_rule:
  "(fst (promote_if_qualified pool candidate top3) = False) =
     (winrate_vs_smart candidate < 0.55 \<or>
      (top3 \<noteq> [] \<and> list_all (\<lambda>b. winrate_vs_smart candidate < b) top3))
   \<and> (fst (promote_if_qualified pool candidate top3) = False \<longrightarrow>
        snd (promote_if_qualified pool candidate top3) = pool)
   \<and> (winrate_vs_smart candidate = 0.50 \<longrightarrow>
        fst (promote_if_qualified pool candidate top3) = False)
   \<and> (winrate_vs_smart candidate = 0.70 \<longrightarrow>
        fst (promote_if_qualified pool candidate [0.60, 0.62, 0.65]) = True)"
  by (simp add: promote_if_qualified_def baseline_blocks_iff Let_def)

theorem promote_if_qualified_rule_witness:
  "fst (promote_if_qualified pool3 cand70 [0.60, 0.62, 0.65]) = True
   \<and> winrate_vs_smart cand70 = 0.70
   \<and> fst (promote_if_qualified pool3 (cand70\<lparr>winrate_vs_smart := 0.50\<rparr>) [0.60, 0.62, 0.65]) = False
   \<and> snd (promote_if_qualified pool3 (cand70\<lparr>winrate_vs_smart := 0.50\<rparr>) [0.60, 0.62, 0.65]) = pool3"
  using promote_if_qualified_rule [of pool3 cand70 "[0.60, 0.62, 0.65]"]
    promote_if_qualified_rule [of pool3 "cand70\<lparr>winrate_vs_smart := 0.50\<rparr>" "[0.60, 0.62, 0.65]"]
  by (simp add: cand70_def)

section \<open>Properties of advantage estimation\<close>

lemma shaped_nth: "shaped h n m \<Longrightarrow> s < h \<Longrightarrow> length (m ! s) = n"
  by (simp add: shaped_def list_all_length)

lemma gae_loop_end: "gae_loop gam lam rewards values dones nv h n h = (replicate h (replicate n 0), replicate n 0)"
  by (simp add: gae_loop_def)

lemma gae_loop_step:
  "k < h \<Longrightarrow> gae_loop gam lam rewards values dones nv h n k =
     gae_step gam lam rewards values dones nv h k (gae_loop gam lam rewards values dones nv h n (Suc k))"
  by (simp add: gae_loop_def upt_conv_Cons)

lemma gae_loop_inv:
  assumes sh: "shaped h n rewards" "shaped h n values" "shaped h n dones" "length nv = n"
    and kh: "k \<le> h"
  shows "length (fst (gae_loop gam lam rewards values dones nv h n k)) = h
    \<and> length (snd (gae_loop gam lam rewards values dones nv h n k)) = n
    \<and> (\<forall>s<h. length (fst (gae_loop gam lam rewards values dones nv h n k) ! s) = n)
    \<and> (k < h \<longrightarrow> snd (gae_loop gam lam rewards values dones nv h n k)
                  = fst (gae_loop gam lam rewards values dones nv h n k) ! k)
    \<and> (\<forall>s j. k \<le> s \<and> s < h \<and> j < n \<longrightarrow>
          fst (gae_loop gam lam rewards values dones nv h n k) ! s ! j =
            td_residual gam rewards values dones nv h s j
            + gam * lam * (1 - dones ! s ! j)
              * (if s = h - 1 then 0 else fst (gae_loop gam lam rewards values dones nv h n k) ! (s + 1) ! j))"
  using kh
proof (induction k rule: inc_induct)
  case base
  show ?case by (simp add: gae_loop_end)
next
  case (step k)
  define A where "A = fst (gae_loop gam lam rewards values dones nv h n (Suc k))"
  define g where "g = snd (gae_loop gam lam rewards values dones nv h n (Suc k))"
  have lenA: "length A = h" and leng: "length g = n"
    and rowsA: "\<forall>s<h. length (A ! s) = n"
    and gA: "Suc k < h \<longrightarrow> g = A ! Suc k"
    and recA: "\<forall>s j. Suc k \<le> s \<and> s < h \<and> j < n \<longrightarrow>
          A ! s ! j = td_residual gam rewards values dones nv h s j
            + gam * lam * (1 - dones ! s ! j) * (if s = h - 1 then 0 else A ! (s + 1) ! j)"
    using step.IH by (simp_all add: A_def g_def)
  have kh: "k < h" by (rule step.hyps)
  have lr: "length (rewards ! k) = n" and lv: "length (values ! k) = n" and ld: "length (dones ! k) = n"
    using sh kh by (simp_all add: shaped_nth)
  have lvn: "length (if k = h - 1 then nv else values ! (k + 1)) = n"
    using sh kh by (auto simp: shaped_nth)
  define g' where "g' = snd (gae_step gam lam rewards values dones nv h k (A, g))"
  have loop: "gae_loop gam lam rewards values dones nv h n k = (A[k := g'], g')"
    unfolding gae_loop_step [OF kh] g'_def A_def g_def
    by (simp add: gae_step_def Let_def)
  have leng': "length g' = n"
    using lr lv ld lvn leng
    by (simp add: g'_def gae_step_def Let_def vadd_def vsub_def vmul_def smul_def)
  have g'j: "g' ! j = td_residual gam rewards values dones nv h k j
                      + gam * lam * (1 - dones ! k ! j) * g ! j" if "j < n" for j
    using that lr lv ld lvn leng sh kh
    by (auto simp: g'_def gae_step_def Let_def vadd_def vsub_def vmul_def smul_def td_residual_def shaped_nth)
  have g0: "g ! j = (if k = h - 1 then 0 else A ! (k + 1) ! j)" if "j < n" for j
  proof (cases "Suc k < h")
    case True
    then show ?thesis using gA by auto
  next
    case False
    then have "Suc k = h" using kh by simp
    then have "gae_loop gam lam rewards values dones nv h n (Suc k) = (replicate h (replicate n 0), replicate n 0)"
      by (simp add: gae_loop_end)
    then show ?thesis using that \<open>Suc k = h\<close> by (auto simp: g_def)
  qed
  show ?case
    unfolding loop
  proof (intro conjI allI impI)
    show "length (fst (A[k := g'], g')) = h" using lenA by simp
    show "length (snd (A[k := g'], g')) = n" using leng' by simp
    show "length (fst (A[k := g'], g') ! s) = n" if "s < h" for s
      using that rowsA leng' lenA by (cases "s = k") simp_all
    show "snd (A[k := g'], g') = fst (A[k := g'], g') ! k" using lenA kh by simp
    fix s j assume sj: "k \<le> s \<and> s < h \<and> j < n"
    show "fst (A[k := g'], g') ! s ! j =
            td_residual gam rewards values dones nv h s j
            + gam * lam * (1 - dones ! s ! j)
              * (if s = h - 1 then 0 else fst (A[k := g'], g') ! (s + 1) ! j)"
    proof (cases "s = k")
      case True
      then show ?thesis using sj lenA kh g'j [of j] g0 [of j] by auto
    next
      case False
      then have "Suc k \<le> s" using sj by simp
      then show ?thesis using sj recA False lenA by auto
    qed
  qed
qed

lemma compute_gae_fst:
  assumes "shaped h n rewards"
  shows "fst (compute_gae rewards values dones nv gam lam)
         = fst (gae_loop gam lam rewards values dones nv h n 0)"
proof (cases rewards)
  case Nil
  then have "h = 0" using assms by (simp add: shaped_def)
  then show ?thesis using Nil by (simp add: compute_gae_def gae_loop_def)
next
  case (Cons r rs)
  then have "length r = n" "length rewards = h" using assms by (simp_all add: shaped_def)
  then show ?thesis using Cons by (simp add: compute_gae_def gae_loop_def Let_def)
qed

lemma compute_gae_recurrence:
  assumes "shaped h n rewards" "shaped h n values" "shaped h n dones" "length nv = n"
    and "s < h" "j < n"
  shows "fst (compute_gae rewards values dones nv gam lam) ! s ! j =
           td_residual gam rewards values dones nv h s j
           + gam * lam * (1 - dones ! s ! j)
             * (if s = h - 1 then 0 else fst (compute_gae rewards values dones nv gam lam) ! (s + 1) ! j)"
  using gae_loop_inv [OF assms(1-4), of 0 gam lam] assms(5,6)
  by (simp add: compute_gae_fst [OF assms(1)])


text \<open>
  C2. If \<open>dones[t] = 1\<close> in lane \<open>j\<close>, the advantages of lane \<open>j\<close> at every step
  \<open>s \<le> t\<close> depend only on the rewards, values and done flags of that lane at steps up to
  \<open>t\<close>: two inputs that agree there give the same advantages, whatever their rewards,
  values and done flags after \<open>t\<close>, their bootstrap values and their other lanes are.
\<close>

theorem compute_gae_done_boundary:
  assumes "shaped h n rewards" "shaped h n values" "shaped h n dones" "length nv = n"
    and "shaped h n rewards'" "shaped h n values'" "shaped h n dones'" "length nv' = n"
    and "t < h" "j < n" "dones ! t ! j = 1"
    and agree: "\<forall>s\<le>t. rewards ! s ! j = rewards' ! s ! j \<and> values ! s ! j = values' ! s ! j
                  \<and> dones ! s ! j = dones' ! s ! j"
  shows "\<forall>s\<le>t. fst (compute_gae rewards values dones nv gam lam) ! s ! j
             = fst (compute_gae rewards' values' dones' nv' gam lam) ! s ! j"
proof -
  let ?A = "fst (compute_gae rewards values dones nv gam lam)"
  let ?B = "fst (compute_gae rewards' values' dones' nv' gam lam)"
  have "?A ! (t - d) ! j = ?B ! (t - d) ! j" for d
  proof (induction d)
    case 0
    have "dones' ! t ! j = 1" using agree assms(11) by auto
    then show ?case
      using compute_gae_recurrence [OF assms(1-4) \<open>t < h\<close> \<open>j < n\<close>, of gam lam]
        compute_gae_recurrence [OF assms(5-8) \<open>t < h\<close> \<open>j < n\<close>, of gam lam] agree assms(11)
      by (simp add: td_residual_def)
  next
    case (Suc d)
    show ?case
    proof (cases "Suc d \<le> t")
      case False
      then have "t - Suc d = t - d" by simp
      then show ?thesis using Suc by simp
    next
      case True
      define s where "s = t - Suc d"
      have s: "s < t" "s + 1 = t - d" "s < h" "s \<noteq> h - 1" "s + 1 \<le> t"
        using True \<open>t < h\<close> by (simp_all add: s_def)
      have ag: "rewards ! s ! j = rewards' ! s ! j" "values ! s ! j = values' ! s ! j"
        "dones ! s ! j = dones' ! s ! j" "values ! (s + 1) ! j = values' ! (s + 1) ! j"
        using agree s by (auto simp: less_imp_le)
      have "?A ! s ! j = ?B ! s ! j"
        using compute_gae_recurrence [OF assms(1-4) \<open>s < h\<close> \<open>j < n\<close>, of gam lam]
          compute_gae_recurrence [OF assms(5-8) \<open>s < h\<close> \<open>j < n\<close>, of gam lam]
          ag s Suc.IH
        by (simp add: td_residual_def)
      then show ?thesis by (simp add: s_def)
    qed
  qed
  then have "?A ! s ! j = ?B ! s ! j" if "s \<le> t" for s
    using that by (metis diff_diff_cancel)
  then show ?thesis by blast
qed

theorem compute_gae_done_boundary_witness:
  "fst (compute_gae [[1], [100]] [[2], [3]] [[1], [0]] [5] 0.5 0.5) ! 0 ! 0
     = fst (compute_gae [[1], [0]] [[2], [7]] [[1], [1]] [9] 0.5 0.5) ! 0 ! 0
   \<and> [[1], [100::real]] ! 1 ! 0 \<noteq> [[1], [0]] ! 1 ! 0
   \<and> [[1::real], [0]] ! 0 ! 0 = 1"
  using compute_gae_done_boundary [of 2 1 "[[1], [100]]" "[[2], [3]]" "[[1], [0]]" "[5]"
      "[[1], [0]]" "[[2], [7]]" "[[1], [1]]" "[9]" 0 0 "0.5" "0.5"]
  by (simp add: shaped_def)



section \<open>Properties of the clipped surrogate objective\<close>

lemma clamp_forced: "clamp (1 + 2 * e) (1 - e) (1 + e) = 1 + e"
  by (simp add: clamp_def min_def max_def)

lemma surrogate_lengths:
  assumes "length new_lp = n" "length old_lp = n" "length adv = n"
  shows "length (ratio (clipped_surrogate e new_lp old_lp adv)) = n"
    "length (unclipped (clipped_surrogate e new_lp old_lp adv)) = n"
    "length (clipped (clipped_surrogate e new_lp old_lp adv)) = n"
  using assms by (simp_all add: clipped_surrogate_def Let_def vsub_def vmul_def)

lemma surrogate_nth:
  assumes "length new_lp = n" "length old_lp = n" "length adv = n" "i < n"
  shows "ratio (clipped_surrogate e new_lp old_lp adv) ! i = exp (new_lp ! i - old_lp ! i)"
    "unclipped (clipped_surrogate e new_lp old_lp adv) ! i
       = ratio (clipped_surrogate e new_lp old_lp adv) ! i * adv ! i"
    "clipped (clipped_surrogate e new_lp old_lp adv) ! i
       = clamp (ratio (clipped_surrogate e new_lp old_lp adv) ! i) (1 - e) (1 + e) * adv ! i"
  using assms by (simp_all add: clipped_surrogate_def Let_def vsub_def vmul_def)

text \<open>
  C6. For every element of a mini-batch the clipped term is
  \<open>clamp(ratio, 1 - clip_epsilon, 1 + clip_epsilon) * advantage\<close>; when the ratio is
  \<open>1 + 2 * clip_epsilon\<close> it is \<open>(1 + clip_epsilon) * advantage\<close>. The policy loss is the
  negated mean of the elementwise minimum of the unclipped and the clipped products; at
  such a ratio (with \<open>clip_epsilon \<ge> 0\<close>) the minimum is the clipped product when the
  advantage is non-negative and the unclipped product when it is non-positive.
\<close>

theorem clipped_surrogate_objective:
  assumes "length new_lp = n" "length old_lp = n" "length adv = n"
  shows "policy_loss (clipped_surrogate e new_lp old_lp adv)
           = - mean (map2 min (unclipped (clipped_surrogate e new_lp old_lp adv))
                              (clipped (clipped_surrogate e new_lp old_lp adv)))
    \<and> (\<forall>i<n. ratio (clipped_surrogate e new_lp old_lp adv) ! i = exp (new_lp ! i - old_lp ! i)
          \<and> unclipped (clipped_surrogate e new_lp old_lp adv) ! i
              = ratio (clipped_surrogate e new_lp old_lp adv) ! i * adv ! i
          \<and> clipped (clipped_surrogate e new_lp old_lp adv) ! i
              = clamp (ratio (clipped_surrogate e new_lp old_lp adv) ! i) (1 - e) (1 + e) * adv ! i
          \<and> (ratio (clipped_surrogate e new_lp old_lp adv) ! i = 1 + 2 * e \<longrightarrow>
               clipped (clipped_surrogate e new_lp old_lp adv) ! i = (1 + e) * adv ! i
               \<and> (0 \<le> e \<and> 0 \<le> adv ! i \<longrightarrow>
                    map2 min (unclipped (clipped_surrogate e new_lp old_lp adv))
                             (clipped (clipped_surrogate e new_lp old_lp adv)) ! i
                      = (1 + e) * adv ! i)
               \<and> (0 \<le> e \<and> adv ! i \<le> 0 \<longrightarrow>
                    map2 min (unclipped (clipped_surrogate e new_lp old_lp adv))
                             (clipped (clipped_surrogate e new_lp old_lp adv)) ! i
                      = (1 + 2 * e) * adv ! i)))"
proof (intro conjI allI impI)
  show "policy_loss (clipped_surrogate e new_lp old_lp adv)
           = - mean (map2 min (unclipped (clipped_surrogate e new_lp old_lp adv))
                              (clipped (clipped_surrogate e new_lp old_lp adv)))"
    by (simp add: clipped_surrogate_def Let_def)
next
  fix i assume i: "i < n"
  note nth = surrogate_nth [OF assms i, of e]
  note len = surrogate_lengths [OF assms, of e]
  show "ratio (clipped_surrogate e new_lp old_lp adv) ! i = exp (new_lp ! i - old_lp ! i)"
    by (rule nth)
  show "unclipped (clipped_surrogate e new_lp old_lp adv) ! i
              = ratio (clipped_surrogate e new_lp old_lp adv) ! i * adv ! i"
    by (rule nth)
  show "clipped (clipped_surrogate e new_lp old_lp adv) ! i
              = clamp (ratio (clipped_surrogate e new_lp old_lp adv) ! i) (1 - e) (1 + e) * adv ! i"
    by (rule nth)
  assume r: "ratio (clipped_surrogate e new_lp old_lp adv) ! i = 1 + 2 * e"
  show c: "clipped (clipped_surrogate e new_lp old_lp adv) ! i = (1 + e) * adv ! i"
    using nth(3) r by (simp add: clamp_forced)
  have u: "unclipped (clipped_surrogate e new_lp old_lp adv) ! i = (1 + 2 * e) * adv ! i"
    using nth(2) r by simp
  have m: "map2 min (unclipped (clipped_surrogate e new_lp old_lp adv))
                    (clipped (clipped_surrogate e new_lp old_lp adv)) ! i
           = min ((1 + 2 * e) * adv ! i) ((1 + e) * adv ! i)"
    using len i c u by simp
  {
    assume "0 \<le> e \<and> 0 \<le> adv ! i"
    then have "(1 + e) * adv ! i \<le> (1 + 2 * e) * adv ! i"
      by (intro mult_right_mono) auto
    then show "map2 min (unclipped (clipped_surrogate e new_lp old_lp adv))
                    (clipped (clipped_surrogate e new_lp old_lp adv)) ! i = (1 + e) * adv ! i"
      unfolding m by simp
  }
  {
    assume "0 \<le> e \<and> adv ! i \<le> 0"
    then have "(1 + 2 * e) * adv ! i \<le> (1 + e) * adv ! i"
      by (intro mult_right_mono_neg) auto
    then show "map2 min (unclipped (clipped_surrogate e new_lp old_lp adv))
                    (clipped (clipped_surrogate e new_lp old_lp adv)) ! i = (1 + 2 * e) * adv ! i"
      unfolding m by simp
  }
qed

theorem clipped_surrogate_objective_witness:
  "ratio (clipped_surrogate (1/5) [ln (7/5), ln (7/5)] [0, 0] [2, -3]) = [7/5, 7/5]
   \<and> clipped (clipped_surrogate (1/5) [ln (7/5), ln (7/5)] [0, 0] [2, -3]) = [12/5, -18/5]
   \<and> unclipped (clipped_surrogate (1/5) [ln (7/5), ln (7/5)] [0, 0] [2, -3]) = [14/5, -21/5]
   \<and> policy_loss (clipped_surrogate (1/5) [ln (7/5), ln (7/5)] [0, 0] [2, -3]) = 9/10"
  using clipped_surrogate_objective [of "[ln (7/5), ln (7/5)]" 2 "[0, 0]" "[2, -3]" "1/5"]
  by (simp add: clipped_surrogate_def Let_def vsub_def vmul_def clamp_def mean_def)

section \<open>Properties of masked action sampling\<close>










section \<open>Properties of the mock environment\<close>

lemma build_observation_masks:
  "build_observation env = Inr obs \<Longrightarrow> mask_invariant (model_cfg env) obs"
  by (auto simp: build_observation_def mask_invariant_def Let_def split: if_splits)

lemma build_observation_total:
  "12 \<le> static_dim (model_cfg env) \<Longrightarrow> 0 < sequence_len (model_cfg env) \<Longrightarrow>
   8 \<le> token_dim (model_cfg env) \<Longrightarrow> \<exists>obs. build_observation env = Inr obs"
  by (simp add: build_observation_def Let_def)

lemma simulate_opponent_policy_cfg [simp]:
  "model_cfg (simulate_opponent_policy R env) = model_cfg env"
  by (simp add: simulate_opponent_policy_def Let_def split: prod.splits)

lemma simulate_battle_cfg [simp]: "model_cfg (simulate_battle env) = model_cfg env"
  by (simp add: simulate_battle_def Let_def)

lemma step_body_shape:
  "\<exists>env2 r d info rc. model_cfg env2 = model_cfg env
     \<and> step_body R env prev a =
         (case build_observation env2 of
            Inl e \<Rightarrow> Inl e
          | Inr obs \<Rightarrow> Inr ((obs, r, d, info, rc), env2))"
proof (cases "apply_action (state env) a")
  case (Pair s_act pen)
  show ?thesis
    unfolding step_body_def Let_def Pair prod.case
    apply (intro exI conjI)
     prefer 2
     apply (rule refl)
    apply simp
    done
qed

lemma step_body_obs:
  assumes "step_body R env prev a = Inr ((obs, r, d, info, rc), env')"
  shows "mask_invariant (model_cfg env) obs"
proof -
  obtain env2 r' d' info' rc' where c: "model_cfg env2 = model_cfg env"
    and e: "step_body R env prev a =
         (case build_observation env2 of
            Inl e \<Rightarrow> Inl e
          | Inr obs \<Rightarrow> Inr ((obs, r', d', info', rc'), env2))"
    using step_body_shape [of env R prev a] by blast
  have b: "build_observation env2 = Inr obs"
    using assms e by (auto split: sum.splits)
  show ?thesis using build_observation_masks [OF b] c by simp
qed

lemma step_body_total:
  assumes "12 \<le> static_dim (model_cfg env)" "0 < sequence_len (model_cfg env)"
    "8 \<le> token_dim (model_cfg env)"
  shows "\<exists>out. step_body R env prev a = Inr out"
proof -
  obtain env2 r' d' info' rc' where c: "model_cfg env2 = model_cfg env"
    and e: "step_body R env prev a =
         (case build_observation env2 of
            Inl e \<Rightarrow> Inl e
          | Inr obs \<Rightarrow> Inr ((obs, r', d', info', rc'), env2))"
    using step_body_shape [of env R prev a] by blast
  obtain obs where "build_observation env2 = Inr obs"
    using build_observation_total [of env2] assms c by auto
  then show ?thesis using e by simp
qed

lemma reset_obs:
  assumes "reset R env sd = Inr (obs, env')"
  shows "mask_invariant (model_cfg env) obs"
proof -
  have b: "build_observation (env\<lparr>rng := default_rng R sd, state := initial_state,
              last_damage_to_opp := 0, last_damage_to_self := 0\<rparr>) = Inr obs"
    using assms by (auto simp: reset_def Let_def split: if_splits sum.splits)
  show ?thesis using build_observation_masks [OF b] by simp
qed

lemma reset_total:
  assumes "12 \<le> static_dim (model_cfg env)" "0 < sequence_len (model_cfg env)"
    "8 \<le> token_dim (model_cfg env)" "0 \<le> sd"
  shows "\<exists>out. reset R env sd = Inr out"
  using assms by (simp add: reset_def build_observation_def Let_def)

text \<open>\<open>reset\<close> overwrites the generator, the state and both damage fields: what is left of
  the environment's past is its configuration.\<close>

lemma reset_forgets:
  assumes "model_cfg env1 = model_cfg env2" "max_ticks env1 = max_ticks env2"
  shows "reset R env1 sd = reset R env2 sd"
proof -
  have "env1\<lparr>rng := g, state := s, last_damage_to_opp := a, last_damage_to_self := b\<rparr>
      = env2\<lparr>rng := g, state := s, last_damage_to_opp := a, last_damage_to_self := b\<rparr>" for g s a b
    using assms by (cases env1, cases env2) simp
  then show ?thesis by (simp add: reset_def)
qed

lemma run_episode_forgets:
  assumes "model_cfg env1 = model_cfg env2" "max_ticks env1 = max_ticks env2"
  shows "run_episode copy R env1 sd actions = run_episode copy R env2 sd actions"
  by (simp add: run_episode_def reset_forgets [OF assms])

text \<open>
  C9. Two runs that reset with the same seed and step with the same actions give the same
  observations, rewards, done flags, info maps and reward components (and the same
  exception, if any), whatever the two environments did before, provided they have the
  same configuration. This holds for the code as it stands (\<open>state_dict\<close>) and for every
  other behaviour of its first line.
\<close>

theorem run_episode_deterministic:
  assumes "model_cfg env1 = model_cfg env2" "max_ticks env1 = max_ticks env2"
  shows "run_episode state_dict R env1 sd actions = run_episode state_dict R env2 sd actions
    \<and> run_episode copy R env1 sd actions = run_episode copy R env2 sd actions"
  using run_episode_forgets [OF assms] by simp

lemma masked_row_all_zero:
  "length logits = n \<Longrightarrow> masked_row c logits (map real_of_int (replicate n 0)) = replicate n c"
  by (auto simp: masked_row_def intro!: nth_equalityI)

text \<open>
  C10. Every observation that \<open>reset\<close> or \<open>step\<close> returns has an action-type mask of
  length 8 with 1 at index 0 and 0 at index 6, and an all-zero sell-slot mask of length
  \<open>slot_dim\<close>, so the masked sell-slot logits are all the most-negative value. With
  \<open>static_dim \<ge> 12\<close>, \<open>sequence_len > 0\<close>, \<open>token_dim \<ge> 8\<close> and a non-negative seed,
  \<open>reset\<close> and the body of \<open>step\<close> do return an observation.
\<close>

theorem observation_masks:
  "(reset R env sd = Inr (obs, env')
      \<or> step R env a = Inr ((obs, r, d, info, rc), env')
      \<or> step_from copy R env a = Inr ((obs, r, d, info, rc), env')
    \<longrightarrow> length (action_type_mask obs) = 8
        \<and> action_type_mask obs ! 0 = 1 \<and> action_type_mask obs ! 6 = 0
        \<and> length (sell_slot_mask obs) = slot_dim (model_cfg env)
        \<and> sell_slot_mask obs = replicate (slot_dim (model_cfg env)) 0
        \<and> (length logits = slot_dim (model_cfg env) \<longrightarrow>
             masked_row large_negative logits (map real_of_int (sell_slot_mask obs))
               = replicate (slot_dim (model_cfg env)) large_negative))
   \<and> (12 \<le> static_dim (model_cfg env) \<and> 0 < sequence_len (model_cfg env)
        \<and> 8 \<le> token_dim (model_cfg env) \<and> 0 \<le> sd
      \<longrightarrow> (\<exists>out. reset R env sd = Inr out) \<and> (\<exists>out. step_body R env prev a = Inr out))"
proof (intro conjI impI)
  assume "12 \<le> static_dim (model_cfg env) \<and> 0 < sequence_len (model_cfg env)
        \<and> 8 \<le> token_dim (model_cfg env) \<and> 0 \<le> sd"
  then show "\<exists>out. reset R env sd = Inr out" "\<exists>out. step_body R env prev a = Inr out"
    using reset_total [of env sd R] step_body_total [of env R prev a] by auto
next
  assume a: "reset R env sd = Inr (obs, env')
      \<or> step R env a = Inr ((obs, r, d, info, rc), env')
      \<or> step_from copy R env a = Inr ((obs, r, d, info, rc), env')"
  have inv: "mask_invariant (model_cfg env) obs"
    using a
    by (auto simp: step_def step_from_def state_dict_def split: sum.splits
        dest: reset_obs step_body_obs)
  show "length (action_type_mask obs) = 8" "action_type_mask obs ! 0 = 1" "action_type_mask obs ! 6 = 0"
    "length (sell_slot_mask obs) = slot_dim (model_cfg env)"
    "sell_slot_mask obs = replicate (slot_dim (model_cfg env)) 0"
    using inv by (simp_all add: mask_invariant_def)
  assume "length logits = slot_dim (model_cfg env)"
  then show "masked_row large_negative logits (map real_of_int (sell_slot_mask obs))
               = replicate (slot_dim (model_cfg env)) large_negative"
    using inv masked_row_all_zero [of logits "slot_dim (model_cfg env)" large_negative]
    by (simp add: mask_invariant_def)
qed

lemma small_cfg_dims:
  "model_cfg used_env = small_cfg" "model_cfg (new_env small_cfg) = small_cfg"
  "max_ticks used_env = 2400" "max_ticks (new_env small_cfg) = 2400"
  "static_dim small_cfg = 12" "sequence_len small_cfg = 2" "token_dim small_cfg = 8"
  "slot_dim small_cfg = 4"
  by (simp_all add: used_env_def new_env_def small_cfg_def)

theorem run_episode_deterministic_witness:
  "run_episode state_dict toy_rng (new_env small_cfg) 7 [act RECRUIT_UNIT, act WAIT]
     = run_episode state_dict toy_rng used_env 7 [act RECRUIT_UNIT, act WAIT]
   \<and> run_episode Inr toy_rng (new_env small_cfg) 7 [act RECRUIT_UNIT, act WAIT]
     = run_episode Inr toy_rng used_env 7 [act RECRUIT_UNIT, act WAIT]
   \<and> rng (new_env small_cfg) \<noteq> rng used_env
   \<and> state (new_env small_cfg) \<noteq> state used_env"
  using run_episode_deterministic [of "new_env small_cfg" used_env toy_rng 7
      "[act RECRUIT_UNIT, act WAIT]" Inr]
  by (simp add: small_cfg_dims) (simp add: used_env_def new_env_def toy_rng_def initial_state_def)

theorem observation_masks_witness:
  "(case reset toy_rng used_env 7 of
      Inl e \<Rightarrow> False
    | Inr (obs, env') \<Rightarrow>
        action_type_mask obs ! 0 = 1 \<and> action_type_mask obs ! 6 = 0
        \<and> sell_slot_mask obs = replicate 4 0
        \<and> masked_row float32_min [1, 2, 3, 4] (map real_of_int (sell_slot_mask obs))
            = replicate 4 float32_min)
   \<and> (case step_from Inr toy_rng used_env (act AGE_UP) of
      Inl e \<Rightarrow> False
    | Inr ((obs, r, d, info, rc), env') \<Rightarrow>
        action_type_mask obs ! 0 = 1 \<and> action_type_mask obs ! 6 = 0
        \<and> sell_slot_mask obs = replicate 4 0)
   \<and> step toy_rng used_env (act AGE_UP) = Inl AttributeError"
proof -
  have dims: "12 \<le> static_dim (model_cfg used_env) \<and> 0 < sequence_len (model_cfg used_env)
        \<and> 8 \<le> token_dim (model_cfg used_env) \<and> (0::int) \<le> 7"
    by (simp add: small_cfg_dims)
  obtain obs env' where r: "reset toy_rng used_env 7 = Inr (obs, env')"
    using observation_masks [where R = toy_rng and env = used_env and sd = 7] dims by fastforce
  obtain obs2 r2 d2 info2 rc2 env2 where
    st: "step_body toy_rng used_env (state used_env) (act AGE_UP) = Inr ((obs2, r2, d2, info2, rc2), env2)"
    using observation_masks [where R = toy_rng and env = used_env and sd = 7
        and a = "act AGE_UP" and prev = "state used_env"] dims
    by (metis prod_cases5 surj_pair)
  have st': "step_from Inr toy_rng used_env (act AGE_UP) = Inr ((obs2, r2, d2, info2, rc2), env2)"
    using st by (simp add: step_from_def)
  have p1: "action_type_mask obs ! 0 = 1 \<and> action_type_mask obs ! 6 = 0
        \<and> sell_slot_mask obs = replicate 4 0
        \<and> masked_row float32_min [1, 2, 3, 4] (map real_of_int (sell_slot_mask obs))
            = replicate 4 float32_min"
    using observation_masks [where R = toy_rng and env = used_env and sd = 7 and obs = obs
        and env' = env' and logits = "[1, 2, 3, 4]" and large_negative = float32_min
        and a = "act AGE_UP" and prev = "state used_env"] r
    by (auto simp: small_cfg_dims)
  have p2: "action_type_mask obs2 ! 0 = 1 \<and> action_type_mask obs2 ! 6 = 0
        \<and> sell_slot_mask obs2 = replicate 4 0"
    using observation_masks [where R = toy_rng and env = used_env and sd = 7 and obs = obs2
        and env' = env2 and a = "act AGE_UP" and r = r2 and d = d2 and info = info2
        and rc = rc2 and copy = Inr and prev = "state used_env"] st'
    by (simp add: small_cfg_dims)
  show ?thesis
    unfolding r st' using p1 p2
    by (simp add: step_def step_from_def state_dict_def masked_row_def eval_nat_numeral)
qed

section \<open>Properties of the trainer loop\<close>

text \<open>Each call interpolates from the current coefficient, not from the initial one.\<close>

lemma anneal_entropy_recurrence:
  "entropy_coef (ppo (cfg (anneal_entropy t))) =
     entropy_coef (ppo (cfg t))
       * (1 - min 1 (real_of_int (global_step t) / real_of_int (max 1 (entropy_anneal_steps (ppo (cfg t))))))
     + entropy_coef_min (ppo (cfg t))
       * min 1 (real_of_int (global_step t) / real_of_int (max 1 (entropy_anneal_steps (ppo (cfg t)))))"
  by (simp add: anneal_entropy_def Let_def)

text \<open>
  C3. Claim: after each iteration the entropy coefficient is the linear interpolation
  \<open>initial * (1 - p) + entropy_coef_min * p\<close> with \<open>p = min(1, global_step / entropy_anneal_steps)\<close>,
  whatever the number of earlier applications. The code run for three iterations from
  step 0, with \<open>entropy_coef = 0.01\<close>, \<open>entropy_coef_min = 0.001\<close>, an anneal over 4 steps and
  one step per iteration: the coefficient is 7/1600, while the interpolation gives 11/2000
  at step count 2 (the count the third call reads) and 13/4000 at step count 3.
\<close>

theorem anneal_entropy_compounds:
  "(case train_n (collab0 finite_metrics) 3 trainer0 of
      Inl e \<Rightarrow> None
    | Inr t \<Rightarrow> Some (global_step t, entropy_coef (ppo (cfg t)))) = Some (3, 7 / 1600)
   \<and> spec_entropy_coef (entropy_coef ppo0) (entropy_coef_min ppo0) (entropy_anneal_steps ppo0) 2
       = 11 / 2000
   \<and> spec_entropy_coef (entropy_coef ppo0) (entropy_coef_min ppo0) (entropy_anneal_steps ppo0) 3
       = 13 / 4000"
  by (simp add: numeral_3_eq_3 train_iteration_def collab0_def trainer0_def cfg0_def ppo0_def
      runtime0_def finite_metrics_def anneal_entropy_def log_phase_def checkpoint_phase_def
      eval_phase_def Let_def spec_entropy_coef_def)

text \<open>
  C7. In a pass of the loop whose update returns a NaN or infinite metric: if a
  last-known-good checkpoint is recorded and its file is there, the pass ends with model
  parameters and optimizer state equal to the file's, having printed the rollback notice
  and nothing else, with the checkpoint files and the league pool unchanged, and the loop
  goes on from that state; if no checkpoint is recorded, the pass ends without an error,
  having printed the warning and nothing else, with the updated model and optimizer kept,
  and the loop goes on from that state.
\<close>

theorem train_iteration_nonfinite_metrics:
  assumes "collect_rollout C (cfg t) (model t) (global_step t) (lanes t) = Inr (batch, lanes')"
    and "update_policy C (ppo (cfg t)) (model t) (optimizer t) batch = (m, model', optimizer')"
    and "list_ex (\<lambda>v. isnan v \<or> isinf v) (map snd m)"
  shows "(last_good_checkpoint t = Some path \<and> path \<noteq> [] \<and> files t path = Some st \<longrightarrow>
           (\<exists>t'. train_iteration C t = Inr t'
              \<and> model t' = ck_model st \<and> optimizer t' = ck_optimizer st
              \<and> printed t' = printed t @ [GuardRolledBack path]
              \<and> files t' = files t \<and> league t' = league t
              \<and> last_good_checkpoint t' = last_good_checkpoint t
              \<and> global_step t' = global_step t
                   + rollout_horizon (runtime (cfg t)) * num_envs (runtime (cfg t))
              \<and> (global_step t < total_steps (runtime (cfg t)) \<longrightarrow> train C t = train C t')))
       \<and> (last_good_checkpoint t = None \<longrightarrow>
           (\<exists>t'. train_iteration C t = Inr t'
              \<and> model t' = model' \<and> optimizer t' = optimizer'
              \<and> printed t' = printed t @ [GuardNoCheckpoint]
              \<and> files t' = files t \<and> league t' = league t
              \<and> last_good_checkpoint t' = None
              \<and> global_step t' = global_step t
                   + rollout_horizon (runtime (cfg t)) * num_envs (runtime (cfg t))
              \<and> (global_step t < total_steps (runtime (cfg t)) \<longrightarrow> train C t = train C t')))"
proof -
  define t3 where "t3 = (anneal_entropy (t\<lparr>lanes := lanes', model := model', optimizer := optimizer'\<rparr>))
      \<lparr>global_step := global_step t + rollout_horizon (runtime (cfg t)) * num_envs (runtime (cfg t))\<rparr>"
  have it: "train_iteration C t = rollback_checkpoint t3"
    using assms by (simp add: train_iteration_def t3_def Let_def anneal_entropy_def)
  have t3_fields: "last_good_checkpoint t3 = last_good_checkpoint t" "files t3 = files t"
    "printed t3 = printed t" "league t3 = league t" "model t3 = model'" "optimizer t3 = optimizer'"
    "global_step t3 = global_step t + rollout_horizon (runtime (cfg t)) * num_envs (runtime (cfg t))"
    by (simp_all add: t3_def anneal_entropy_def Let_def)
  have unroll: "train C t = train C t'"
    if "train_iteration C t = Inr t'" "global_step t < total_steps (runtime (cfg t))" for t'
    using that by (subst train.simps) simp
  show ?thesis
  proof (intro conjI impI)
    assume a: "last_good_checkpoint t = Some path \<and> path \<noteq> [] \<and> files t path = Some st"
    define t' where "t' = t3\<lparr>model := ck_model st, optimizer := ck_optimizer st,
                              printed := printed t3 @ [GuardRolledBack path]\<rparr>"
    have r: "train_iteration C t = Inr t'"
      using a t3_fields by (simp add: it rollback_checkpoint_def falsy_def t'_def Let_def)
    show "\<exists>t'. train_iteration C t = Inr t'
              \<and> model t' = ck_model st \<and> optimizer t' = ck_optimizer st
              \<and> printed t' = printed t @ [GuardRolledBack path]
              \<and> files t' = files t \<and> league t' = league t
              \<and> last_good_checkpoint t' = last_good_checkpoint t
              \<and> global_step t' = global_step t
                   + rollout_horizon (runtime (cfg t)) * num_envs (runtime (cfg t))
              \<and> (global_step t < total_steps (runtime (cfg t)) \<longrightarrow> train C t = train C t')"
      using r unroll [OF r] t3_fields by (intro exI [of _ t']) (simp add: t'_def)
  next
    assume a: "last_good_checkpoint t = None"
    define t' where "t' = t3\<lparr>printed := printed t3 @ [GuardNoCheckpoint]\<rparr>"
    have r: "train_iteration C t = Inr t'"
      using a t3_fields by (simp add: it rollback_checkpoint_def falsy_def t'_def)
    show "\<exists>t'. train_iteration C t = Inr t'
              \<and> model t' = model' \<and> optimizer t' = optimizer'
              \<and> printed t' = printed t @ [GuardNoCheckpoint]
              \<and> files t' = files t \<and> league t' = league t
              \<and> last_good_checkpoint t' = None
              \<and> global_step t' = global_step t
                   + rollout_horizon (runtime (cfg t)) * num_envs (runtime (cfg t))
              \<and> (global_step t < total_steps (runtime (cfg t)) \<longrightarrow> train C t = train C t')"
      using r unroll [OF r] t3_fields a by (intro exI [of _ t']) (simp add: t'_def)
  qed
qed

theorem train_iteration_nonfinite_metrics_witness:
  "(case train_iteration (collab0 nan_metrics) trainer_ck of
      Inl e \<Rightarrow> False
    | Inr t' \<Rightarrow> model t' = 3 \<and> optimizer t' = 4
        \<and> printed t' = [GuardRolledBack ''checkpoints/checkpoint_100000.pt'']
        \<and> files t' = files trainer_ck \<and> league t' = league trainer_ck
        \<and> global_step t' = 100002
        \<and> train (collab0 nan_metrics) trainer_ck = train (collab0 nan_metrics) t')
   \<and> (case train_iteration (collab0 nan_metrics) trainer0 of
      Inl e \<Rightarrow> False
    | Inr t' \<Rightarrow> model t' = 1 \<and> optimizer t' = 1
        \<and> printed t' = [GuardNoCheckpoint]
        \<and> files t' = files trainer0 \<and> league t' = league trainer0
        \<and> global_step t' = 1
        \<and> train (collab0 nan_metrics) trainer0 = train (collab0 nan_metrics) t')"
proof -
  have bad: "list_ex (\<lambda>v. isnan v \<or> isinf v) (map snd nan_metrics)"
    by (simp add: nan_metrics_def)
  have ck: "last_good_checkpoint trainer_ck = Some ''checkpoints/checkpoint_100000.pt''
      \<and> ''checkpoints/checkpoint_100000.pt'' \<noteq> []
      \<and> files trainer_ck ''checkpoints/checkpoint_100000.pt''
          = Some \<lparr>ck_step = 100000, ck_model = 3, ck_optimizer = 4, ck_config = cfg0\<rparr>"
    by (simp add: trainer_ck_def)
  have none: "last_good_checkpoint trainer0 = None"
    by (simp add: trainer0_def)
  have steps: "global_step trainer_ck < total_steps (runtime (cfg trainer_ck))"
    "global_step trainer0 < total_steps (runtime (cfg trainer0))"
    "global_step trainer_ck = 100001" "global_step trainer0 = 0"
    "rollout_horizon (runtime (cfg trainer_ck)) * num_envs (runtime (cfg trainer_ck)) = 1"
    "rollout_horizon (runtime (cfg trainer0)) * num_envs (runtime (cfg trainer0)) = 1"
    "printed trainer_ck = []" "printed trainer0 = []"
    by (simp_all add: trainer_ck_def trainer0_def cfg0_def runtime0_def)
  obtain t1 where t1: "train_iteration (collab0 nan_metrics) trainer_ck = Inr t1"
    "model t1 = 3" "optimizer t1 = 4"
    "printed t1 = [GuardRolledBack ''checkpoints/checkpoint_100000.pt'']"
    "files t1 = files trainer_ck" "league t1 = league trainer_ck" "global_step t1 = 100002"
    "train (collab0 nan_metrics) trainer_ck = train (collab0 nan_metrics) t1"
    using train_iteration_nonfinite_metrics [where C = "collab0 nan_metrics" and t = trainer_ck
        and batch = "()" and lanes' = "()" and m = nan_metrics and model' = 6 and optimizer' = 7
        and path = "''checkpoints/checkpoint_100000.pt''"
        and st = "\<lparr>ck_step = 100000, ck_model = 3, ck_optimizer = 4, ck_config = cfg0\<rparr>"]
      bad ck steps
    by (auto simp: collab0_def trainer_ck_def)
  obtain t2 where t2: "train_iteration (collab0 nan_metrics) trainer0 = Inr t2"
    "model t2 = 1" "optimizer t2 = 1" "printed t2 = [GuardNoCheckpoint]"
    "files t2 = files trainer0" "league t2 = league trainer0" "global_step t2 = 1"
    "train (collab0 nan_metrics) trainer0 = train (collab0 nan_metrics) t2"
    using train_iteration_nonfinite_metrics [where C = "collab0 nan_metrics" and t = trainer0
        and batch = "()" and lanes' = "()" and m = nan_metrics and model' = 1 and optimizer' = 1]
      bad none steps
    by (auto simp: collab0_def trainer0_def)
  show ?thesis
    unfolding t1(1) t2(1) using t1(2-) t2(2-) by simp
qed

end
